theory Spec2Isabelle
  imports Complex_Main
begin

section \<open>The hygrometry module, embedded in HOL\<close>

text \<open>
  The module is a collection of pure functions on Python floats. A float is modelled as
  a real number: arithmetic is exact, with no rounding, and the range of the floats is
  not modelled (no overflow, so \<open>math.exp\<close> never raises \<open>OverflowError\<close>, and no
  underflow to zero). What Python does beyond returning a number is written into the
  model:
  \<^item> the float division \<open>a / b\<close> raises \<open>ZeroDivisionError\<close> when \<open>b\<close> is zero;
  \<^item> \<open>math.log x\<close> raises \<open>ValueError\<close> when \<open>x \<le> 0\<close>, and \<open>math.sqrt x\<close> when \<open>x < 0\<close>;
  \<^item> \<open>float('nan')\<close> is a value of its own, which no arithmetic of the model produces;
  \<^item> the \<open>while\<close> loop of \<open>calc_wb\<close> has no iteration cap, so the solver is a partial
    function: \<open>None\<close> is the run that never returns.
  Every guard below that yields an error stands for one operation of the source that
  raises, in the order in which Python evaluates the expression. The conversions
  \<open>float(...)\<close> of the source are the identity on numbers.
\<close>

datatype py_error = ZeroDivisionError | ValueError

datatype pyfloat = Fin real | NaN

subsection \<open>Unit conversion\<close>

definition conv_F2C :: "real \<Rightarrow> real" where
  "conv_F2C f = (f - 32.0) * 0.555556"

definition conv_C2F :: "real \<Rightarrow> real" where
  "conv_C2F c = c * 1.8 + 32.0"

subsection \<open>Vapor pressure, saturation vapor pressure and dew point\<close>

text \<open>
  \<open>Td\<close> returns the list \<open>[es, V, Td]\<close>. The quotient \<open>17.67 * Tc / (Tc + 243.5)\<close> raises
  when \<open>Tc + 243.5\<close> is zero; \<open>math.log (V / 6.112)\<close> raises when its argument is not
  positive; the last quotient raises when \<open>17.67 - l\<close> is zero.
\<close>

definition Td :: "real \<Rightarrow> real \<Rightarrow> py_error + (real \<times> real \<times> pyfloat)" where
  "Td Tc RH =
     (if Tc + 243.5 = 0 then Inl ZeroDivisionError
      else
        let es = 6.112 * exp (17.67 * Tc / (Tc + 243.5));
            V = es * RH / 100.0
        in if V \<noteq> 0 then
             (if V / 6.112 \<le> 0 then Inl ValueError
              else
                let l = ln (V / 6.112)
                in if 17.67 - l = 0 then Inl ZeroDivisionError
                   else Inr (es, V, Fin (243.5 * l / (17.67 - l))))
           else Inr (es, V, NaN))"

subsection \<open>The wet-bulb solver\<close>

text \<open>
  The loop of \<open>calc_wb\<close>, one unfolding per iteration. The arguments are the variables
  the loop reads and writes. The \<open>break\<close> returns the current guess; leaving the loop
  through its condition returns the guess after its last update.
\<close>

partial_function (option) calc_wb ::
  "real \<Rightarrow> real \<Rightarrow> real \<Rightarrow> real \<Rightarrow> real \<Rightarrow> real \<Rightarrow> real \<Rightarrow> (py_error + real) option" where
  "calc_wb Edifference Twguess Ctemp MBpressure E2 previoussign incr =
     (if \<bar>Edifference\<bar> > 0.0005 then
        (if Twguess + 243.5 = 0 then Some (Inl ZeroDivisionError)
         else
           let Ewguess = 6.112 * exp ((17.67 * Twguess) / (Twguess + 243.5));
               Eguess = Ewguess - MBpressure * (Ctemp - Twguess) * 0.00066 * (1.0 + (0.00115 * Twguess));
               Edifference = E2 - Eguess
           in if \<bar>Edifference\<bar> < 0.0005 then Some (Inr Twguess)
              else if Edifference < 0.0 then
                (if - 1 \<noteq> previoussign then
                   calc_wb Edifference (Twguess + (incr / 10.0) * (- 1)) Ctemp MBpressure E2 (- 1) (incr / 10.0)
                 else
                   calc_wb Edifference (Twguess + incr * previoussign) Ctemp MBpressure E2 previoussign incr)
              else
                (if 1 \<noteq> previoussign then
                   calc_wb Edifference (Twguess + (incr / 10.0) * 1) Ctemp MBpressure E2 1 (incr / 10.0)
                 else
                   calc_wb Edifference (Twguess + incr * previoussign) Ctemp MBpressure E2 previoussign incr))
      else Some (Inr Twguess))"

definition calc_sWB :: "real \<Rightarrow> real \<Rightarrow> real \<Rightarrow> (py_error + real) option" where
  "calc_sWB Tc RH P =
     (let RH = (if RH \<le> 0 then 0 else RH)
      in case Td Tc RH of
           Inl e \<Rightarrow> Some (Inl e)
         | Inr (es, V, Tdv) \<Rightarrow> calc_wb 1 0 Tc P V 1 10)"

subsection \<open>Closed-form derived quantities\<close>

definition humidity_adjust_temp :: "real \<Rightarrow> real \<Rightarrow> real \<Rightarrow> py_error + real" where
  "humidity_adjust_temp RH_1 Tc_1 Tc_2 =
     (if 243.12 + Tc_1 = 0 then Inl ZeroDivisionError
      else if 243.12 + Tc_2 = 0 then Inl ZeroDivisionError
      else Inr (RH_1 * exp (4283.78 * (Tc_1 - Tc_2) / (243.12 + Tc_1) / (243.12 + Tc_2))))"


definition absolute_humidity :: "real \<Rightarrow> real \<Rightarrow> py_error + real" where
  "absolute_humidity t RH =
     (let Tn = 243.12; m = 17.62; A = 6.112
      in if Tn + t = 0 then Inl ZeroDivisionError
         else if 273.15 + t = 0 then Inl ZeroDivisionError
         else Inr (216.7 * (RH / 100.0 * A * exp (m * t / (Tn + t)) / (273.15 + t))))"


text \<open>The NOAA regression of \<open>heat_index\<close>, in Fahrenheit, before any adjustment.\<close>

definition heat_index_regression :: "real \<Rightarrow> real \<Rightarrow> real" where
  "heat_index_regression tF RH =
     - 42.379 + 2.04901523 * tF + 10.14333127 * RH - 0.22475541 * tF * RH
     - 0.00683783 * tF * tF - 0.05481717 * RH * RH + 0.00122874 * tF * tF * RH
     + 0.00085282 * tF * RH * RH - 0.00000199 * tF * tF * RH * RH"

definition heat_index :: "real \<Rightarrow> real \<Rightarrow> py_error + real" where
  "heat_index t RH =
     (let tF = conv_C2F t;
          HI = heat_index_regression tF RH
      in if RH < 13 \<and> tF > 80 \<and> tF < 112 then
           (if (17.0 - \<bar>tF - 95.0\<bar>) / 17.0 < 0 then Inl ValueError
            else
              let adj = ((13.0 - RH) / 4.0) * sqrt ((17.0 - \<bar>tF - 95.0\<bar>) / 17.0)
              in Inr (conv_F2C (HI - adj)))
         else if RH > 85 \<and> tF > 80 \<and> tF < 87 then
           (let adj = ((RH - 85.0) / 10.0) * ((87.0 - tF) / 5.0)
            in Inr (conv_F2C (HI + adj)))
         else if tF < 80 then
           Inr (conv_F2C (0.5 * (tF + 61.0 + ((tF - 68.0) * 1.2) + (RH * 0.094))))
         else Inr (conv_F2C HI))"


subsection \<open>Expressions of the source, named\<close>

text \<open>
  The Magnus expression that \<open>Td\<close> assigns to \<open>es\<close> and \<open>calc_wb\<close> to \<open>Ewguess\<close>, and the
  value \<open>calc_wb\<close> assigns to \<open>Eguess\<close> at a guess \<open>Twguess\<close>: the theorems are stated
  with these names, and each is unfolded to the source's expression where it is used.
\<close>

definition saturation_vapor_pressure :: "real \<Rightarrow> real" where
  "saturation_vapor_pressure T = 6.112 * exp (17.67 * T / (T + 243.5))"

definition Eguess_at :: "real \<Rightarrow> real \<Rightarrow> real \<Rightarrow> real" where
  "Eguess_at Twguess Ctemp MBpressure =
     6.112 * exp ((17.67 * Twguess) / (Twguess + 243.5))
     - MBpressure * (Ctemp - Twguess) * 0.00066 * (1.0 + (0.00115 * Twguess))"

text \<open>
  The update of \<open>(Twguess, previoussign, incr)\<close> that one iteration of the loop of
  \<open>calc_wb\<close> makes when it neither breaks nor raises, and the guess after \<open>n\<close> such
  updates: the run of the solver, whether or not it stops.
\<close>

definition calc_wb_next :: "real \<Rightarrow> real \<Rightarrow> real \<Rightarrow> real \<times> real \<times> real \<Rightarrow> real \<times> real \<times> real" where
  "calc_wb_next Ctemp MBpressure E2 st =
     (case st of (Twguess, previoussign, incr) \<Rightarrow>
        if E2 - Eguess_at Twguess Ctemp MBpressure < 0.0 then
          (if - 1 \<noteq> previoussign then (Twguess + (incr / 10.0) * (- 1), - 1, incr / 10.0)
           else (Twguess + incr * previoussign, previoussign, incr))
        else
          (if 1 \<noteq> previoussign then (Twguess + (incr / 10.0) * 1, 1, incr / 10.0)
           else (Twguess + incr * previoussign, previoussign, incr)))"

definition calc_wb_guess :: "real \<Rightarrow> real \<Rightarrow> real \<Rightarrow> real \<times> real \<times> real \<Rightarrow> nat \<Rightarrow> real" where
  "calc_wb_guess Ctemp MBpressure E2 st n = fst ((calc_wb_next Ctemp MBpressure E2 ^^ n) st)"

text \<open>The vapor pressure that \<open>calc_sWB\<close> hands to the solver as \<open>E2\<close>.\<close>

definition calc_sWB_E2 :: "real \<Rightarrow> real \<Rightarrow> real" where
  "calc_sWB_E2 Tc RH = saturation_vapor_pressure Tc * (if RH \<le> 0 then 0 else RH) / 100.0"


text \<open>The three bands of \<open>heat_index\<close>, on the relative humidity and the Fahrenheit temperature.\<close>

definition low_humidity_band :: "real \<Rightarrow> real \<Rightarrow> bool" where
  "low_humidity_band RH tF = (RH < 13 \<and> tF > 80 \<and> tF < 112)"

definition high_humidity_band :: "real \<Rightarrow> real \<Rightarrow> bool" where
  "high_humidity_band RH tF = (RH > 85 \<and> tF > 80 \<and> tF < 87)"

definition low_temperature_band :: "real \<Rightarrow> bool" where
  "low_temperature_band tF = (tF < 80)"

subsection \<open>The solver in the words of the specification\<close>

text \<open>
  Section 4.3 of the specification: repeat while \<open>|Ediff| > 0.0005\<close>; compute the
  residual at the guess; stop when \<open>|Ediff| < 0.0005\<close>; \<open>cursign\<close> is \<open>-1\<close> if
  \<open>Ediff < 0\<close> and \<open>+1\<close> otherwise; when \<open>cursign\<close> differs from the sign of the
  previous iteration, divide \<open>incr\<close> by 10 and adopt \<open>cursign\<close>, otherwise keep both;
  then \<open>Tw = Tw + incr * sign\<close>. The solver starts from \<open>Tw = 0\<close>, \<open>incr = 10\<close>,
  \<open>sign = +1\<close> and \<open>Ediff = 1\<close>. The specification's arithmetic is the source's: the
  quotient in the saturation vapor pressure has no value at \<open>Tw = -243.5\<close>.
\<close>

partial_function (option) wet_bulb_loop ::
  "real \<Rightarrow> real \<Rightarrow> real \<Rightarrow> real \<Rightarrow> real \<Rightarrow> real \<Rightarrow> real \<Rightarrow> (py_error + real) option" where
  "wet_bulb_loop Ediff Tw Tc Pr E2 sign incr =
     (if \<bar>Ediff\<bar> > 0.0005 then
        (if Tw + 243.5 = 0 then Some (Inl ZeroDivisionError)
         else
           let Ew_guess = 6.112 * exp (17.67 * Tw / (Tw + 243.5));
               E_guess = Ew_guess - Pr * (Tc - Tw) * 0.00066 * (1 + 0.00115 * Tw);
               Ediff' = E2 - E_guess
           in if \<bar>Ediff'\<bar> < 0.0005 then Some (Inr Tw)
              else
                let cursign = (if Ediff' < 0 then - 1 else 1);
                    incr' = (if cursign \<noteq> sign then incr / 10 else incr);
                    sign' = (if cursign \<noteq> sign then cursign else sign)
                in wet_bulb_loop Ediff' (Tw + incr' * sign') Tc Pr E2 sign' incr')
      else Some (Inr Tw))"

definition wet_bulb_solver :: "real \<Rightarrow> real \<Rightarrow> real \<Rightarrow> (py_error + real) option" where
  "wet_bulb_solver Tc P E2 = wet_bulb_loop 1 0 Tc P E2 1 10"


section \<open>Properties\<close>

subsection \<open>Documented examples\<close>

text \<open>
  The examples of the docstrings whose value is a decimal fraction: the model computes
  them exactly (the source prints \<open>heat_index(25, 80)\<close> as \<open>25.644464960000008\<close>, the
  float next to the exact value).
\<close>

lemma conv_F2C_example: "conv_F2C 70.0 = 21.111128"
  by (simp add: conv_F2C_def)

lemma conv_C2F_example: "conv_C2F 21.111128 = 70.0000304"
  by (simp add: conv_C2F_def)

lemma heat_index_example: "heat_index 25 80 = Inr 25.64446496"
  by (simp add: heat_index_def conv_C2F_def conv_F2C_def Let_def)

subsection \<open>Unit conversion\<close>



subsection \<open>Humidity at another temperature\<close>

text \<open>
  C10. Adjusting a humidity from \<open>Tc_1\<close> to \<open>Tc_2\<close> and back returns the humidity,
  when neither temperature is \<open>-243.12\<close>: the two exponents are opposite.
\<close>

theorem humidity_adjust_temp_inverse:
  assumes "Tc_1 \<noteq> - 243.12" "Tc_2 \<noteq> - 243.12"
  shows "(case humidity_adjust_temp RH Tc_1 Tc_2 of
            Inl e \<Rightarrow> Inl e
          | Inr RH_2 \<Rightarrow> humidity_adjust_temp RH_2 Tc_2 Tc_1) = Inr RH"
proof -
  have n1: "243.12 + Tc_1 \<noteq> 0" using assms(1) by auto
  have n2: "243.12 + Tc_2 \<noteq> 0" using assms(2) by auto
  have g: "k * (y - x) / q / p = - (k * (x - y) / p / q)" for k x y p q :: real
  proof -
    have "k * (y - x) / q / p = (- (k * (x - y))) / (q * p)"
      by (simp add: divide_divide_eq_left algebra_simps)
    also have "\<dots> = - (k * (x - y) / p / q)"
      by (simp add: divide_divide_eq_left mult.commute)
    finally show ?thesis .
  qed
  have "4283.78 * (Tc_2 - Tc_1) / (243.12 + Tc_2) / (243.12 + Tc_1)
      = - (4283.78 * (Tc_1 - Tc_2) / (243.12 + Tc_1) / (243.12 + Tc_2))"
    by (rule g)
  then show ?thesis using n1 n2
    by (simp add: humidity_adjust_temp_def exp_minus)
qed

theorem humidity_adjust_temp_inverse_witness:
  "(25::real) \<noteq> - 243.12 \<and> (30::real) \<noteq> - 243.12 \<and>
   (case humidity_adjust_temp 60 25 30 of
      Inl e \<Rightarrow> Inl e
    | Inr RH_2 \<Rightarrow> humidity_adjust_temp RH_2 30 25) = Inr 60"
proof -
  have a: "(25::real) \<noteq> - 243.12" and b: "(30::real) \<noteq> - 243.12" by simp_all
  from humidity_adjust_temp_inverse[OF a b, of 60] a b show ?thesis by blast
qed

subsection \<open>The heat index\<close>

lemma heat_index_low_humidity:
  assumes "low_humidity_band RH (conv_C2F t)"
  shows "heat_index t RH = Inr (conv_F2C (heat_index_regression (conv_C2F t) RH
           - ((13.0 - RH) / 4.0) * sqrt ((17.0 - \<bar>conv_C2F t - 95.0\<bar>) / 17.0)))"
proof -
  define tF where "tF = conv_C2F t"
  have b: "RH < 13" "tF > 80" "tF < 112"
    using assms by (simp_all add: low_humidity_band_def tF_def)
  have "\<bar>tF - 95\<bar> < 17" using b by arith
  then have g: "\<not> (17.0 - \<bar>tF - 95.0\<bar>) / 17.0 < 0" by simp
  show ?thesis
    unfolding heat_index_def Let_def tF_def[symmetric]
    using b g by simp
qed

lemma heat_index_high_humidity:
  assumes "high_humidity_band RH (conv_C2F t)"
  shows "heat_index t RH = Inr (conv_F2C (heat_index_regression (conv_C2F t) RH
           + ((RH - 85.0) / 10.0) * ((87.0 - conv_C2F t) / 5.0)))"
proof -
  define tF where "tF = conv_C2F t"
  have b: "RH > 85" "tF > 80" "tF < 87"
    using assms by (simp_all add: high_humidity_band_def tF_def)
  show ?thesis
    unfolding heat_index_def Let_def tF_def[symmetric]
    using b by simp
qed

lemma heat_index_low_temperature:
  assumes "low_temperature_band (conv_C2F t)"
  shows "heat_index t RH = Inr (conv_F2C (0.5 * (conv_C2F t + 61.0 + ((conv_C2F t - 68.0) * 1.2) + (RH * 0.094))))"
proof -
  define tF where "tF = conv_C2F t"
  have b: "tF < 80"
    using assms by (simp_all add: low_temperature_band_def tF_def)
  show ?thesis
    unfolding heat_index_def Let_def tF_def[symmetric]
    using b by simp
qed

lemma heat_index_no_band:
  assumes "\<not> low_humidity_band RH (conv_C2F t)" "\<not> high_humidity_band RH (conv_C2F t)"
    "\<not> low_temperature_band (conv_C2F t)"
  shows "heat_index t RH = Inr (conv_F2C (heat_index_regression (conv_C2F t) RH))"
proof -
  define tF where "tF = conv_C2F t"
  have b: "\<not> (RH < 13 \<and> tF > 80 \<and> tF < 112)" "\<not> (RH > 85 \<and> tF > 80 \<and> tF < 87)" "\<not> tF < 80"
    using assms
    unfolding low_humidity_band_def high_humidity_band_def low_temperature_band_def tF_def
    by blast+
  show ?thesis
    unfolding heat_index_def Let_def tF_def[symmetric]
    using b by (simp only: if_False)
qed

lemma bands_exclusive:
  "\<not> (low_humidity_band RH tF \<and> high_humidity_band RH tF)"
  "\<not> (low_humidity_band RH tF \<and> low_temperature_band tF)"
  "\<not> (high_humidity_band RH tF \<and> low_temperature_band tF)"
  by (auto simp add: low_humidity_band_def high_humidity_band_def low_temperature_band_def)

text \<open>
  C7. \<open>heat_index\<close> applies the low-humidity adjustment in the low-humidity band, the
  high-humidity adjustment in the high-humidity band, the linear formula in place of the
  regression below 80 degrees Fahrenheit, and the plain regression outside the three
  bands. No input lies in two bands, so the order of the tests never decides the result.
\<close>

theorem heat_index_regimes:
  "(low_humidity_band RH (conv_C2F t) \<longrightarrow>
      heat_index t RH = Inr (conv_F2C (heat_index_regression (conv_C2F t) RH
           - ((13.0 - RH) / 4.0) * sqrt ((17.0 - \<bar>conv_C2F t - 95.0\<bar>) / 17.0)))) \<and>
   (high_humidity_band RH (conv_C2F t) \<longrightarrow>
      heat_index t RH = Inr (conv_F2C (heat_index_regression (conv_C2F t) RH
           + ((RH - 85.0) / 10.0) * ((87.0 - conv_C2F t) / 5.0)))) \<and>
   (low_temperature_band (conv_C2F t) \<longrightarrow>
      heat_index t RH = Inr (conv_F2C (0.5 * (conv_C2F t + 61.0 + ((conv_C2F t - 68.0) * 1.2) + (RH * 0.094))))) \<and>
   (\<not> low_humidity_band RH (conv_C2F t) \<and> \<not> high_humidity_band RH (conv_C2F t)
      \<and> \<not> low_temperature_band (conv_C2F t) \<longrightarrow>
      heat_index t RH = Inr (conv_F2C (heat_index_regression (conv_C2F t) RH))) \<and>
   \<not> (low_humidity_band RH (conv_C2F t) \<and> high_humidity_band RH (conv_C2F t)) \<and>
   \<not> (low_humidity_band RH (conv_C2F t) \<and> low_temperature_band (conv_C2F t)) \<and>
   \<not> (high_humidity_band RH (conv_C2F t) \<and> low_temperature_band (conv_C2F t))"
proof (intro conjI impI)
  assume "low_humidity_band RH (conv_C2F t)"
  then show "heat_index t RH = Inr (conv_F2C (heat_index_regression (conv_C2F t) RH
           - ((13.0 - RH) / 4.0) * sqrt ((17.0 - \<bar>conv_C2F t - 95.0\<bar>) / 17.0)))"
    by (rule heat_index_low_humidity)
next
  assume "high_humidity_band RH (conv_C2F t)"
  then show "heat_index t RH = Inr (conv_F2C (heat_index_regression (conv_C2F t) RH
           + ((RH - 85.0) / 10.0) * ((87.0 - conv_C2F t) / 5.0)))"
    by (rule heat_index_high_humidity)
next
  assume "low_temperature_band (conv_C2F t)"
  then show "heat_index t RH = Inr (conv_F2C (0.5 * (conv_C2F t + 61.0 + ((conv_C2F t - 68.0) * 1.2) + (RH * 0.094))))"
    by (rule heat_index_low_temperature)
next
  assume "\<not> low_humidity_band RH (conv_C2F t) \<and> \<not> high_humidity_band RH (conv_C2F t)
      \<and> \<not> low_temperature_band (conv_C2F t)"
  then show "heat_index t RH = Inr (conv_F2C (heat_index_regression (conv_C2F t) RH))"
    by (intro heat_index_no_band) simp_all
qed (rule bands_exclusive)+

theorem heat_index_regimes_witness:
  "low_humidity_band 10 (conv_C2F 35) \<and>
   heat_index 35 10 = Inr (conv_F2C (heat_index_regression (conv_C2F 35) 10
           - ((13.0 - 10) / 4.0) * sqrt ((17.0 - \<bar>conv_C2F 35 - 95.0\<bar>) / 17.0))) \<and>
   high_humidity_band 90 (conv_C2F 28) \<and>
   heat_index 28 90 = Inr (conv_F2C (heat_index_regression (conv_C2F 28) 90
           + ((90 - 85.0) / 10.0) * ((87.0 - conv_C2F 28) / 5.0))) \<and>
   low_temperature_band (conv_C2F 25) \<and>
   heat_index 25 80 = Inr (conv_F2C (0.5 * (conv_C2F 25 + 61.0 + ((conv_C2F 25 - 68.0) * 1.2) + (80 * 0.094)))) \<and>
   \<not> low_humidity_band 50 (conv_C2F 35) \<and> \<not> high_humidity_band 50 (conv_C2F 35) \<and>
   \<not> low_temperature_band (conv_C2F 35) \<and>
   heat_index 35 50 = Inr (conv_F2C (heat_index_regression (conv_C2F 35) 50))"
proof -
  have b1: "low_humidity_band 10 (conv_C2F 35)"
    by (simp add: low_humidity_band_def conv_C2F_def)
  have b2: "high_humidity_band 90 (conv_C2F 28)"
    by (simp add: high_humidity_band_def conv_C2F_def)
  have b3: "low_temperature_band (conv_C2F 25)"
    by (simp add: low_temperature_band_def conv_C2F_def)
  have b4: "\<not> low_humidity_band 50 (conv_C2F 35)" "\<not> high_humidity_band 50 (conv_C2F 35)"
    "\<not> low_temperature_band (conv_C2F 35)"
    by (simp_all add: low_humidity_band_def high_humidity_band_def low_temperature_band_def conv_C2F_def)
  note r1 = heat_index_regimes[of 10 35, THEN conjunct1, THEN mp, OF b1]
  note r2 = heat_index_regimes[of 90 28, THEN conjunct2, THEN conjunct1, THEN mp, OF b2]
  note r3 = heat_index_regimes[of 80 25, THEN conjunct2, THEN conjunct2, THEN conjunct1, THEN mp, OF b3]
  note r4 = heat_index_regimes[of 50 35, THEN conjunct2, THEN conjunct2, THEN conjunct2,
      THEN conjunct1, THEN mp, OF conjI[OF b4(1) conjI[OF b4(2) b4(3)]]]
  show ?thesis
    by (intro conjI b1 b2 b3 b4 r1 r2 r3 r4)
qed


subsection \<open>Vapor pressure and dew point\<close>

lemma saturation_vapor_pressure_pos: "0 < saturation_vapor_pressure T"
  by (simp add: saturation_vapor_pressure_def)

lemma Td_at_pole: "Td (- 243.5) RH = Inl ZeroDivisionError"
  by (simp add: Td_def)

lemma Td_unfold:
  assumes "Tc \<noteq> - 243.5"
  shows "Td Tc RH =
    (if saturation_vapor_pressure Tc * RH / 100.0 \<noteq> 0 then
       (if saturation_vapor_pressure Tc * RH / 100.0 / 6.112 \<le> 0 then Inl ValueError
        else if 17.67 - ln (saturation_vapor_pressure Tc * RH / 100.0 / 6.112) = 0 then Inl ZeroDivisionError
        else Inr (saturation_vapor_pressure Tc, saturation_vapor_pressure Tc * RH / 100.0,
               Fin (243.5 * ln (saturation_vapor_pressure Tc * RH / 100.0 / 6.112)
                     / (17.67 - ln (saturation_vapor_pressure Tc * RH / 100.0 / 6.112)))))
     else Inr (saturation_vapor_pressure Tc, saturation_vapor_pressure Tc * RH / 100.0, NaN))"
proof -
  have n: "(Tc + 243.5 = 0) = False" using assms by auto
  show ?thesis
    unfolding Td_def Let_def saturation_vapor_pressure_def
    by (simp only: n if_False)
qed

lemma vapor_sign:
  "(saturation_vapor_pressure Tc * RH / 100.0 = 0) = (RH = 0)"
  "(saturation_vapor_pressure Tc * RH / 100.0 / 6.112 \<le> 0) = (RH \<le> 0)"
  "(0 \<le> saturation_vapor_pressure Tc * RH / 100.0) = (0 \<le> RH)"
  using saturation_vapor_pressure_pos[of Tc]
  by (simp_all add: zero_le_mult_iff mult_le_0_iff zero_le_divide_iff divide_le_0_iff)


lemma Td_no_vapor:
  assumes "Tc \<noteq> - 243.5" "saturation_vapor_pressure Tc * RH / 100.0 = 0"
  shows "Td Tc RH = Inr (saturation_vapor_pressure Tc, 0, NaN)"
  using assms(2) by (simp only: Td_unfold[OF assms(1)]) simp

lemma magnus_exponent_less:
  assumes "Tc > - 243.5"
  shows "17.67 * Tc / (Tc + 243.5) < (17.67 :: real)"
proof -
  have p: "0 < Tc + 243.5" using assms by simp
  have "Tc / (Tc + 243.5) < 1" using p by (simp add: field_simps)
  then have "17.67 * (Tc / (Tc + 243.5)) < 17.67 * 1"
    by (intro mult_strict_left_mono) simp_all
  then show ?thesis by simp
qed

lemma vapor_ln_less:
  assumes "Tc > - 243.5" "0 < RH" "RH \<le> 100"
  shows "ln (saturation_vapor_pressure Tc * RH / 100.0 / 6.112) < 17.67"
proof -
  let ?a = "17.67 * Tc / (Tc + 243.5)"
  have e: "saturation_vapor_pressure Tc * RH / 100.0 / 6.112 = exp ?a * RH / 100"
    by (simp add: saturation_vapor_pressure_def)
  have pos: "0 < exp ?a * RH / 100" using assms(2) by simp
  have "exp ?a * RH / 100 \<le> exp ?a * 100 / 100"
    using assms(3) by (intro divide_right_mono mult_left_mono) simp_all
  also have "\<dots> < exp 17.67"
    using magnus_exponent_less[OF assms(1)] by simp
  finally have lt: "exp ?a * RH / 100 < exp 17.67" .
  have "ln (exp ?a * RH / 100) < ln (exp 17.67)"
    using pos lt by (subst ln_less_cancel_iff) simp_all
  then show ?thesis unfolding e by simp
qed

lemma Td_returns:
  assumes "Tc > - 243.5" "0 < RH" "RH \<le> 100"
  shows "\<exists>d. Td Tc RH = Inr (saturation_vapor_pressure Tc, saturation_vapor_pressure Tc * RH / 100.0, Fin d)"
proof -
  have n: "Tc \<noteq> - 243.5" using assms(1) by auto
  have l: "(17.67 - ln (saturation_vapor_pressure Tc * RH / 100.0 / 6.112) = 0) = False"
    using vapor_ln_less[OF assms] by simp
  have r: "(RH = 0) = False" "(RH \<le> 0) = False" using assms(2) by auto
  show ?thesis
    by (simp only: Td_unfold[OF n] vapor_sign r l not_False_eq_True if_True if_False) blast
qed

lemma Td_result_components:
  assumes "Td Tc RH = Inr (es, V, d)"
  shows "es = saturation_vapor_pressure Tc \<and> V = es * RH / 100.0"
proof -
  have n: "Tc \<noteq> - 243.5"
    using assms Td_at_pole[of RH] by auto
  from assms show ?thesis
    unfolding Td_unfold[OF n] by (auto split: if_splits)
qed







text \<open>
  C9. For every \<open>Tc\<close> above \<open>-243.5\<close>, a call of \<open>Td\<close> whose vapor pressure is 0 returns
  \<open>NaN\<close> as its dew point, and a relative humidity of 0 is such a call. At
  \<open>Tc = -243.5\<close> the call raises instead.
\<close>

theorem Td_zero_vapor_is_nan:
  "(- 243.5 < Tc \<and> saturation_vapor_pressure Tc * RH / 100.0 = 0 \<longrightarrow>
      Td Tc RH = Inr (saturation_vapor_pressure Tc, 0, NaN)) \<and>
   (- 243.5 < Tc \<longrightarrow> Td Tc 0 = Inr (saturation_vapor_pressure Tc, 0, NaN))"
proof (intro conjI impI)
  assume a: "- 243.5 < Tc \<and> saturation_vapor_pressure Tc * RH / 100.0 = 0"
  then have "Tc \<noteq> - 243.5" "saturation_vapor_pressure Tc * RH / 100.0 = 0" by auto
  then show "Td Tc RH = Inr (saturation_vapor_pressure Tc, 0, NaN)" by (rule Td_no_vapor)
next
  assume "- 243.5 < Tc"
  then have "Tc \<noteq> - 243.5" by auto
  from Td_no_vapor[OF this, of 0] show "Td Tc 0 = Inr (saturation_vapor_pressure Tc, 0, NaN)"
    by simp
qed

theorem Td_zero_vapor_is_nan_witness:
  "- 243.5 < (20::real) \<and> saturation_vapor_pressure 20 * 0 / 100.0 = 0 \<and>
   Td 20 0 = Inr (saturation_vapor_pressure 20, 0, NaN)"
proof -
  have a: "- 243.5 < (20::real) \<and> saturation_vapor_pressure 20 * 0 / 100.0 = 0" by simp
  note r = Td_zero_vapor_is_nan[of 20 0, THEN conjunct1, THEN mp, OF a]
  from a r show ?thesis by blast
qed

theorem Td_zero_humidity_counterexample:
  "Td (- 243.5) 0 = Inl ZeroDivisionError"
  by (rule Td_at_pole)

subsection \<open>Degenerate inputs\<close>







subsection \<open>The wet-bulb solver\<close>

lemma calc_wb_unfold:
  "calc_wb Ed Tw Tc P E2 s i =
     (if \<bar>Ed\<bar> > 0.0005 then
        (if Tw + 243.5 = 0 then Some (Inl ZeroDivisionError)
         else if \<bar>E2 - Eguess_at Tw Tc P\<bar> < 0.0005 then Some (Inr Tw)
         else if E2 - Eguess_at Tw Tc P < 0 then
           (if - 1 \<noteq> s then calc_wb (E2 - Eguess_at Tw Tc P) (Tw - i / 10) Tc P E2 (- 1) (i / 10)
            else calc_wb (E2 - Eguess_at Tw Tc P) (Tw + i * s) Tc P E2 s i)
         else
           (if 1 \<noteq> s then calc_wb (E2 - Eguess_at Tw Tc P) (Tw + i / 10) Tc P E2 1 (i / 10)
            else calc_wb (E2 - Eguess_at Tw Tc P) (Tw + i * s) Tc P E2 s i))
      else Some (Inr Tw))"
proof -
  have e: "6.112 * exp ((17.67 * Tw) / (Tw + 243.5))
           - P * (Tc - Tw) * 0.00066 * (1.0 + (0.00115 * Tw)) = Eguess_at Tw Tc P"
    by (simp only: Eguess_at_def)
  show ?thesis
    by (subst calc_wb.simps) (simp only: Let_def e, simp)
qed

lemma wet_bulb_loop_unfold:
  "wet_bulb_loop Ed Tw Tc P E2 s i =
     (if \<bar>Ed\<bar> > 0.0005 then
        (if Tw + 243.5 = 0 then Some (Inl ZeroDivisionError)
         else if \<bar>E2 - Eguess_at Tw Tc P\<bar> < 0.0005 then Some (Inr Tw)
         else if E2 - Eguess_at Tw Tc P < 0 then
           (if - 1 \<noteq> s then wet_bulb_loop (E2 - Eguess_at Tw Tc P) (Tw - i / 10) Tc P E2 (- 1) (i / 10)
            else wet_bulb_loop (E2 - Eguess_at Tw Tc P) (Tw + i * s) Tc P E2 s i)
         else
           (if 1 \<noteq> s then wet_bulb_loop (E2 - Eguess_at Tw Tc P) (Tw + i / 10) Tc P E2 1 (i / 10)
            else wet_bulb_loop (E2 - Eguess_at Tw Tc P) (Tw + i * s) Tc P E2 s i))
      else Some (Inr Tw))"
proof -
  have e: "6.112 * exp (17.67 * Tw / (Tw + 243.5)) - P * (Tc - Tw) * 0.00066 * (1 + 0.00115 * Tw)
      = Eguess_at Tw Tc P"
    by (simp add: Eguess_at_def)
  show ?thesis
    by (subst wet_bulb_loop.simps) (simp only: Let_def e, simp)
qed

lemma calc_wb_le_loop:
  assumes "calc_wb Ed Tw Tc P E2 s i = Some y"
  shows "wet_bulb_loop Ed Tw Tc P E2 s i = Some y"
proof (rule calc_wb.raw_induct
    [where P = "\<lambda>Ed Tw Tc P E2 s i y. wet_bulb_loop Ed Tw Tc P E2 s i = Some y", OF _ assms], goal_cases)
  case (1 f Ed Tw Tc P E2 s i y)
  note step = this
  have e: "6.112 * exp ((17.67 * Tw) / (Tw + 243.5))
           - P * (Tc - Tw) * 0.00066 * (1.0 + (0.00115 * Tw)) = Eguess_at Tw Tc P"
    by (simp only: Eguess_at_def)
  from step(2) show ?case
    apply (subst wet_bulb_loop_unfold)
    apply (simp only: Let_def e)
    apply (auto simp add: step(1) split: if_splits)
    done
qed

lemma loop_le_calc_wb:
  assumes "wet_bulb_loop Ed Tw Tc P E2 s i = Some y"
  shows "calc_wb Ed Tw Tc P E2 s i = Some y"
proof (rule wet_bulb_loop.raw_induct
    [where P = "\<lambda>Ed Tw Tc P E2 s i y. calc_wb Ed Tw Tc P E2 s i = Some y", OF _ assms], goal_cases)
  case (1 f Ed Tw Tc P E2 s i y)
  note step = this
  define R where "R = E2 - Eguess_at Tw Tc P"
  have e: "E2 - (6.112 * exp (17.67 * Tw / (Tw + 243.5)) - P * (Tc - Tw) * 0.00066 * (1 + 0.00115 * Tw))
      = R"
    by (simp add: Eguess_at_def R_def)
  note h = step(2)[unfolded Let_def e]
  note u = calc_wb_unfold[of Ed Tw Tc P E2 s i]
  show ?case
  proof (cases "0.0005 < \<bar>Ed\<bar> \<and> Tw + 243.5 \<noteq> 0 \<and> \<not> \<bar>R\<bar> < 0.0005")
    case False
    then consider "\<not> 0.0005 < \<bar>Ed\<bar>" | "0.0005 < \<bar>Ed\<bar>" "Tw + 243.5 = 0"
      | "0.0005 < \<bar>Ed\<bar>" "Tw + 243.5 \<noteq> 0" "\<bar>R\<bar> < 0.0005"
      by blast
    then show ?thesis
    proof cases
      case 1
      show ?thesis by (subst u) (use h 1 in \<open>simp flip: R_def\<close>)
    next
      case 2
      show ?thesis by (subst u) (use h 2 in \<open>simp flip: R_def\<close>)
    next
      case 3
      show ?thesis by (subst u) (use h 3 in \<open>simp flip: R_def\<close>)
    qed
  next
    case True
    then have c: "0.0005 < \<bar>Ed\<bar>" "Tw + 243.5 \<noteq> 0" "\<not> \<bar>R\<bar> < 0.0005"
      by simp_all
    show ?thesis
    proof (cases "R < 0")
      case neg: True
      show ?thesis
      proof (cases "s = - 1")
        case True
        with h c neg have "f R (Tw + i * s) Tc P E2 s i = Some y" by simp
        then have "calc_wb R (Tw + i * s) Tc P E2 s i = Some y" by (rule step(1))
        then show ?thesis by (subst u) (use c neg True in \<open>simp flip: R_def\<close>)
      next
        case False
        with h c neg have "f R (Tw - i / 10) Tc P E2 (- 1) (i / 10) = Some y" by simp
        then have "calc_wb R (Tw - i / 10) Tc P E2 (- 1) (i / 10) = Some y" by (rule step(1))
        then show ?thesis by (subst u) (use c neg False in \<open>simp flip: R_def\<close>)
      qed
    next
      case pos: False
      show ?thesis
      proof (cases "s = 1")
        case True
        with h c pos have "f R (Tw + i * s) Tc P E2 s i = Some y" by simp
        then have "calc_wb R (Tw + i * s) Tc P E2 s i = Some y" by (rule step(1))
        then show ?thesis by (subst u) (use c pos True in \<open>simp flip: R_def\<close>)
      next
        case False
        with h c pos have "f R (Tw + i / 10) Tc P E2 1 (i / 10) = Some y" by simp
        then have "calc_wb R (Tw + i / 10) Tc P E2 1 (i / 10) = Some y" by (rule step(1))
        then show ?thesis by (subst u) (use c pos False in \<open>simp flip: R_def\<close>)
      qed
    qed
  qed
qed

lemma calc_wb_eq_loop: "calc_wb Ed Tw Tc P E2 s i = wet_bulb_loop Ed Tw Tc P E2 s i"
proof (cases "calc_wb Ed Tw Tc P E2 s i")
  case None
  show ?thesis
  proof (cases "wet_bulb_loop Ed Tw Tc P E2 s i")
    case None
    with \<open>calc_wb Ed Tw Tc P E2 s i = None\<close> show ?thesis by simp
  next
    case (Some y)
    from loop_le_calc_wb[OF Some] None show ?thesis by simp
  qed
next
  case (Some y)
  from calc_wb_le_loop[OF Some] Some show ?thesis by simp
qed

text \<open>
  C2. The loop of \<open>calc_wb\<close> is the loop of the specification, and \<open>calc_sWB\<close> starts
  it as the specification says: residual 1, guess 0, sign \<open>+1\<close>, step 10, on the vapor
  pressure that \<open>Td\<close> returns for the clamped humidity. The two loops agree on every
  state, also on the states from which neither returns.
\<close>

theorem calc_wb_is_specified_solver:
  "calc_wb Ediff Tw Tc P E2 sign incr = wet_bulb_loop Ediff Tw Tc P E2 sign incr \<and>
   calc_sWB Tc RH P =
     (case Td Tc (if RH \<le> 0 then 0 else RH) of
        Inl e \<Rightarrow> Some (Inl e)
      | Inr (es, V, Tdv) \<Rightarrow> wet_bulb_solver Tc P V)"
proof
  show "calc_wb Ediff Tw Tc P E2 sign incr = wet_bulb_loop Ediff Tw Tc P E2 sign incr"
    by (rule calc_wb_eq_loop)
  show "calc_sWB Tc RH P =
     (case Td Tc (if RH \<le> 0 then 0 else RH) of
        Inl e \<Rightarrow> Some (Inl e)
      | Inr (es, V, Tdv) \<Rightarrow> wet_bulb_solver Tc P V)"
    unfolding calc_sWB_def Let_def wet_bulb_solver_def
    by (simp only: calc_wb_eq_loop)
qed

text \<open>
  C8. A relative humidity at or below 0 gives the run of relative humidity 0: the
  clamp comes before \<open>Td\<close> and the solver. Away from \<open>Tc = -243.5\<close> that run is the
  solver on the vapor pressure 0.
\<close>

theorem calc_sWB_clamps_humidity:
  assumes "RH \<le> 0"
  shows "calc_sWB Tc RH P = calc_sWB Tc 0 P \<and>
         (Tc \<noteq> - 243.5 \<longrightarrow> calc_sWB Tc RH P = calc_wb 1 0 Tc P 0 1 10)"
proof
  show c: "calc_sWB Tc RH P = calc_sWB Tc 0 P"
    using assms by (simp add: calc_sWB_def)
  show "Tc \<noteq> - 243.5 \<longrightarrow> calc_sWB Tc RH P = calc_wb 1 0 Tc P 0 1 10"
  proof
    assume "Tc \<noteq> - 243.5"
    from Td_no_vapor[OF this, of 0]
    have "Td Tc 0 = Inr (saturation_vapor_pressure Tc, 0, NaN)" by simp
    then have "calc_sWB Tc 0 P = calc_wb 1 0 Tc P 0 1 10"
      by (simp add: calc_sWB_def)
    with c show "calc_sWB Tc RH P = calc_wb 1 0 Tc P 0 1 10" by simp
  qed
qed

theorem calc_sWB_clamps_humidity_witness:
  "(- 5::real) \<le> 0 \<and> (20::real) \<noteq> - 243.5 \<and> calc_sWB 20 (- 5) 1000 = calc_sWB 20 0 1000 \<and>
   calc_sWB 20 (- 5) 1000 = calc_wb 1 0 20 1000 0 1 10"
proof -
  have a: "(- 5::real) \<le> 0" and b: "(20::real) \<noteq> - 243.5" by simp_all
  note r = calc_sWB_clamps_humidity[OF a, of 20 1000]
  note r1 = r[THEN conjunct1]
  note r2 = r[THEN conjunct2, THEN mp, OF b]
  show ?thesis by (intro conjI a b r1 r2)
qed

text \<open>
  The exits of the loop, by the guesses of its run: a value that \<open>calc_wb\<close> returns is
  the starting guess (the loop was never entered), or a guess of the run that passes
  the convergence test, or the guess after one whose residual is exactly \<open>0.0005\<close>.
\<close>

lemma calc_wb_guess_0: "calc_wb_guess Tc P E2 (Tw, s, i) 0 = Tw"
  by (simp add: calc_wb_guess_def)

lemma calc_wb_guess_Suc:
  "calc_wb_guess Tc P E2 st (Suc n) = calc_wb_guess Tc P E2 (calc_wb_next Tc P E2 st) n"
  by (simp add: calc_wb_guess_def funpow_swap1)

lemma calc_wb_unfold_next:
  "calc_wb Ed Tw Tc P E2 s i =
     (if \<bar>Ed\<bar> > 0.0005 then
        (if Tw + 243.5 = 0 then Some (Inl ZeroDivisionError)
         else if \<bar>E2 - Eguess_at Tw Tc P\<bar> < 0.0005 then Some (Inr Tw)
         else (case calc_wb_next Tc P E2 (Tw, s, i) of
                 (Tw', s', i') \<Rightarrow> calc_wb (E2 - Eguess_at Tw Tc P) Tw' Tc P E2 s' i'))
      else Some (Inr Tw))"
  by (subst calc_wb_unfold) (simp add: calc_wb_next_def)

lemma calc_wb_exit_aux:
  assumes "calc_wb Ed Tw Tc P E2 s i = Some y"
  shows "\<forall>w. y = Inr w \<longrightarrow>
        (\<bar>Ed\<bar> \<le> 0.0005 \<and> w = Tw)
      \<or> (\<exists>n. w = calc_wb_guess Tc P E2 (Tw, s, i) n \<and> \<bar>E2 - Eguess_at w Tc P\<bar> < 0.0005)
      \<or> (\<exists>n. \<bar>E2 - Eguess_at (calc_wb_guess Tc P E2 (Tw, s, i) n) Tc P\<bar> = 0.0005
             \<and> w = calc_wb_guess Tc P E2 (Tw, s, i) (Suc n))"
proof (rule calc_wb.raw_induct
    [where P = "\<lambda>Ed Tw Tc P E2 s i y. \<forall>w. y = Inr w \<longrightarrow>
        (\<bar>Ed\<bar> \<le> 0.0005 \<and> w = Tw)
      \<or> (\<exists>n. w = calc_wb_guess Tc P E2 (Tw, s, i) n \<and> \<bar>E2 - Eguess_at w Tc P\<bar> < 0.0005)
      \<or> (\<exists>n. \<bar>E2 - Eguess_at (calc_wb_guess Tc P E2 (Tw, s, i) n) Tc P\<bar> = 0.0005
             \<and> w = calc_wb_guess Tc P E2 (Tw, s, i) (Suc n))", OF _ assms], goal_cases)
  case (1 f Ed Tw Tc P E2 s i y)
  note step = this
  define R where "R = E2 - Eguess_at Tw Tc P"
  obtain Tw' s' i' where nx: "calc_wb_next Tc P E2 (Tw, s, i) = (Tw', s', i')"
    by (cases "calc_wb_next Tc P E2 (Tw, s, i)")
  have e: "E2 - (6.112 * exp ((17.67 * Tw) / (Tw + 243.5))
           - P * (Tc - Tw) * 0.00066 * (1.0 + (0.00115 * Tw))) = R"
    by (simp only: Eguess_at_def R_def)
  note h = step(2)[unfolded Let_def e]
  show ?case
  proof (intro allI impI)
    fix w
    assume y: "y = Inr w"
    let ?G = "calc_wb_guess Tc P E2 (Tw, s, i)"
    show "(\<bar>Ed\<bar> \<le> 0.0005 \<and> w = Tw)
      \<or> (\<exists>n. w = ?G n \<and> \<bar>E2 - Eguess_at w Tc P\<bar> < 0.0005)
      \<or> (\<exists>n. \<bar>E2 - Eguess_at (?G n) Tc P\<bar> = 0.0005 \<and> w = ?G (Suc n))"
    proof (cases "0.0005 < \<bar>Ed\<bar> \<and> Tw + 243.5 \<noteq> 0 \<and> \<not> \<bar>R\<bar> < 0.0005")
      case False
      then consider "\<not> 0.0005 < \<bar>Ed\<bar>" | "0.0005 < \<bar>Ed\<bar>" "Tw + 243.5 = 0"
        | "0.0005 < \<bar>Ed\<bar>" "Tw + 243.5 \<noteq> 0" "\<bar>R\<bar> < 0.0005"
        by blast
      then show ?thesis
      proof cases
        case 1
        with h y have "w = Tw" by simp
        with 1 show ?thesis by simp
      next
        case 2
        with h y show ?thesis by simp
      next
        case 3
        with h y have "w = Tw" by simp
        with 3 have "w = ?G 0 \<and> \<bar>E2 - Eguess_at w Tc P\<bar> < 0.0005"
          by (simp add: R_def calc_wb_guess_0)
        then show ?thesis by blast
      qed
    next
      case True
      then have c: "0.0005 < \<bar>Ed\<bar>" "Tw + 243.5 \<noteq> 0" "\<not> \<bar>R\<bar> < 0.0005"
        by simp_all
      have "f R Tw' Tc P E2 s' i' = Some y"
      proof (cases "R < 0")
        case True
        with h c nx show ?thesis
          by (cases "- 1 \<noteq> s") (auto simp add: calc_wb_next_def R_def)
      next
        case False
        with h c nx show ?thesis
          by (cases "1 \<noteq> s") (auto simp add: calc_wb_next_def R_def)
      qed
      from step(1)[OF this] y
      have ih: "(\<bar>R\<bar> \<le> 0.0005 \<and> w = Tw')
        \<or> (\<exists>n. w = calc_wb_guess Tc P E2 (Tw', s', i') n \<and> \<bar>E2 - Eguess_at w Tc P\<bar> < 0.0005)
        \<or> (\<exists>n. \<bar>E2 - Eguess_at (calc_wb_guess Tc P E2 (Tw', s', i') n) Tc P\<bar> = 0.0005
             \<and> w = calc_wb_guess Tc P E2 (Tw', s', i') (Suc n))"
        by blast
      have sh: "calc_wb_guess Tc P E2 (Tw', s', i') n = ?G (Suc n)" for n
        by (simp only: calc_wb_guess_Suc nx)
      from ih consider (a) "\<bar>R\<bar> \<le> 0.0005" "w = Tw'"
        | (b) n where "w = ?G (Suc n)" "\<bar>E2 - Eguess_at w Tc P\<bar> < 0.0005"
        | (c) n where "\<bar>E2 - Eguess_at (?G (Suc n)) Tc P\<bar> = 0.0005" "w = ?G (Suc (Suc n))"
        unfolding sh by blast
      then show ?thesis
      proof cases
        case a
        have "\<bar>R\<bar> = 0.0005" using a(1) c(3) by simp
        then have "\<bar>E2 - Eguess_at (?G 0) Tc P\<bar> = 0.0005"
          by (simp only: calc_wb_guess_0 R_def)
        moreover have "w = ?G (Suc 0)"
          using a(2) sh[of 0] by (simp add: calc_wb_guess_0)
        ultimately show ?thesis by blast
      next
        case b
        then show ?thesis by blast
      next
        case c
        then show ?thesis by blast
      qed
    qed
  qed
qed

lemma calc_wb_exit:
  assumes "calc_wb Ed Tw Tc P E2 s i = Some (Inr w)" "0.0005 < \<bar>Ed\<bar>"
  shows "\<bar>E2 - Eguess_at w Tc P\<bar> < 0.0005
      \<or> (\<exists>n. \<bar>E2 - Eguess_at (calc_wb_guess Tc P E2 (Tw, s, i) n) Tc P\<bar> = 0.0005
             \<and> w = calc_wb_guess Tc P E2 (Tw, s, i) (Suc n))"
  using calc_wb_exit_aux[OF assms(1)] assms(2) by auto

text \<open>
  The solver returns as soon as a guess of its run passes the convergence test, when no
  earlier guess does, none has a residual of exactly \<open>0.0005\<close> and none is the pole
  \<open>-243.5\<close>.
\<close>

lemma calc_wb_returns:
  assumes "0.0005 < \<bar>Ed\<bar>"
    and "\<And>m. m < n \<Longrightarrow> calc_wb_guess Tc P E2 (Tw, s, i) m + 243.5 \<noteq> 0
            \<and> 0.0005 < \<bar>E2 - Eguess_at (calc_wb_guess Tc P E2 (Tw, s, i) m) Tc P\<bar>"
    and "calc_wb_guess Tc P E2 (Tw, s, i) n + 243.5 \<noteq> 0"
    and "\<bar>E2 - Eguess_at (calc_wb_guess Tc P E2 (Tw, s, i) n) Tc P\<bar> < 0.0005"
  shows "calc_wb Ed Tw Tc P E2 s i = Some (Inr (calc_wb_guess Tc P E2 (Tw, s, i) n))"
  using assms
proof (induction n arbitrary: Ed Tw s i)
  case 0
  then show ?case
    by (subst calc_wb_unfold_next) (simp add: calc_wb_guess_0)
next
  case (Suc n)
  obtain Tw' s' i' where nx: "calc_wb_next Tc P E2 (Tw, s, i) = (Tw', s', i')"
    by (cases "calc_wb_next Tc P E2 (Tw, s, i)")
  have sh: "calc_wb_guess Tc P E2 (Tw, s, i) (Suc m) = calc_wb_guess Tc P E2 (Tw', s', i') m" for m
    by (simp only: calc_wb_guess_Suc nx)
  from Suc.prems(2)[of 0]
  have z: "Tw + 243.5 \<noteq> 0" "0.0005 < \<bar>E2 - Eguess_at Tw Tc P\<bar>"
    by (simp_all add: calc_wb_guess_0)
  have "calc_wb (E2 - Eguess_at Tw Tc P) Tw' Tc P E2 s' i'
      = Some (Inr (calc_wb_guess Tc P E2 (Tw', s', i') n))"
  proof (rule Suc.IH)
    show "0.0005 < \<bar>E2 - Eguess_at Tw Tc P\<bar>" by (rule z(2))
    show "calc_wb_guess Tc P E2 (Tw', s', i') m + 243.5 \<noteq> 0
            \<and> 0.0005 < \<bar>E2 - Eguess_at (calc_wb_guess Tc P E2 (Tw', s', i') m) Tc P\<bar>"
      if "m < n" for m
    proof -
      from that have "Suc m < Suc n" by simp
      from Suc.prems(2)[OF this] show ?thesis unfolding sh .
    qed
    show "calc_wb_guess Tc P E2 (Tw', s', i') n + 243.5 \<noteq> 0"
      using Suc.prems(3) unfolding sh .
    show "\<bar>E2 - Eguess_at (calc_wb_guess Tc P E2 (Tw', s', i') n) Tc P\<bar> < 0.0005"
      using Suc.prems(4) unfolding sh .
  qed
  then show ?case
    using Suc.prems(1) z nx by (subst calc_wb_unfold_next) (simp add: sh)
qed

lemma Eguess_at_svp:
  "Eguess_at Tw Tc P = saturation_vapor_pressure Tw + P * (Tw - Tc) * 0.00066 * (1.0 + 0.00115 * Tw)"
proof -
  have g: "a - p * (c - w) * k * m = a + p * (w - c) * k * m" for a p c w k m :: real
    by (simp add: algebra_simps)
  show ?thesis
    unfolding Eguess_at_def saturation_vapor_pressure_def by (rule g)
qed

lemma magnus_exponent_mono:
  assumes "- 243.5 < (a::real)" "a < b"
  shows "17.67 * a / (a + 243.5) < 17.67 * b / (b + 243.5)"
proof -
  have pa: "0 < a + 243.5" and pb: "0 < b + 243.5" using assms by simp_all
  have "a * (b + 243.5) < b * (a + 243.5)"
    using assms(2) by (simp add: algebra_simps)
  then have "a / (a + 243.5) < b / (b + 243.5)"
    using pa pb by (simp add: divide_less_eq less_divide_eq mult.commute)
  then have "17.67 * (a / (a + 243.5)) < 17.67 * (b / (b + 243.5))"
    by (intro mult_strict_left_mono) simp_all
  then show ?thesis by simp
qed

lemma saturation_vapor_pressure_mono:
  assumes "- 243.5 < a" "a < b"
  shows "saturation_vapor_pressure a < saturation_vapor_pressure b"
  unfolding saturation_vapor_pressure_def
  using magnus_exponent_mono[OF assms] by simp

lemma psychrometric_term_bound:
  assumes "- 243.5 < (lo::real)" "lo < hi" "0 < (P::real)" "- 243.5 < (x::real)"
    and "P * (hi - lo) * 0.00066 * (1.0 + 0.00115 * x) < 0.0005"
  shows "hi - lo < 1.06 / P"
proof -
  have "0.719975 < 1 + 0.00115 * x" using assms(4) by simp
  moreover have "0 < P * (hi - lo) * 0.00066" using assms(2,3) by simp
  ultimately have "P * (hi - lo) * 0.00066 * 0.719975 < P * (hi - lo) * 0.00066 * (1 + 0.00115 * x)"
    by (intro mult_strict_left_mono) simp_all
  with assms(5) have "P * (hi - lo) * 0.00066 * 0.719975 < 0.0005" by simp
  then have "P * (hi - lo) < 1.06" by simp
  then have "(hi - lo) * P < 1.06" by (simp only: mult.commute)
  then show ?thesis by (simp only: pos_less_divide_eq[OF assms(3)])
qed


lemma above_split:
  fixes E V tol S B S0 :: real
  assumes "E - V < tol" "E = S + B" "V \<le> S0" "S0 < S"
  shows "B < tol"
  using assms by linarith

lemma below_split:
  fixes E V tol S B S0 :: real
  assumes "V - E < tol" "E = S + B" "V = S0" "S < S0"
  shows "- B < tol"
  using assms by linarith

lemma calc_sWB_run:
  assumes "calc_sWB Tc RH P = Some (Inr Tw)"
  shows "calc_wb 1 0 Tc P (calc_sWB_E2 Tc RH) 1 10 = Some (Inr Tw)"
proof (cases "Td Tc (if RH \<le> 0 then 0 else RH)")
  case (Inl e)
  with assms show ?thesis by (simp add: calc_sWB_def Let_def)
next
  case (Inr r)
  obtain es V d where r: "r = (es, V, d)" by (cases r)
  from Td_result_components[of Tc "if RH \<le> 0 then 0 else RH" es V d] Inr r
  have "V = calc_sWB_E2 Tc RH" by (simp add: calc_sWB_E2_def)
  with assms Inr r show ?thesis by (simp add: calc_sWB_def Let_def)
qed

text \<open>
  C1. A wet-bulb temperature that \<open>calc_sWB\<close> returns through its convergence test has
  a residual below \<open>0.0005\<close>; it can exceed the dry-bulb temperature, but by less than
  \<open>1.06 / P\<close> degrees, and at \<open>RH = 100\<close> it is within \<open>1.06 / P\<close> degrees of it
  when it lies above \<open>-243.5\<close>. The loop has a second exit: when a guess of the run
  has a residual of exactly \<open>0.0005\<close>, both tests of the loop fail and the guess
  returned is the next one of the run; nothing is said of that guess.
\<close>

theorem calc_sWB_within_tolerance:
  assumes "calc_sWB Tc RH P = Some (Inr Tw)" "- 243.5 < Tc" "0 < P" "RH \<le> 100"
  shows "(\<bar>calc_sWB_E2 Tc RH - Eguess_at Tw Tc P\<bar> < 0.0005 \<and>
          Tw < Tc + 1.06 / P \<and>
          (RH = 100 \<and> - 243.5 < Tw \<longrightarrow> Tc - 1.06 / P < Tw)) \<or>
         (\<exists>n. \<bar>calc_sWB_E2 Tc RH
                 - Eguess_at (calc_wb_guess Tc P (calc_sWB_E2 Tc RH) (0, 1, 10) n) Tc P\<bar> = 0.0005 \<and>
              Tw = calc_wb_guess Tc P (calc_sWB_E2 Tc RH) (0, 1, 10) (Suc n))"
proof -
  define V where "V = calc_sWB_E2 Tc RH"
  have run: "calc_wb 1 0 Tc P V 1 10 = Some (Inr Tw)"
    unfolding V_def by (rule calc_sWB_run[OF assms(1)])
  have s: "0 < saturation_vapor_pressure Tc" by (rule saturation_vapor_pressure_pos)
  have "(if RH \<le> 0 then 0 else RH) \<le> 100" using assms(4) by simp
  then have "saturation_vapor_pressure Tc * (if RH \<le> 0 then 0 else RH) / 100
      \<le> saturation_vapor_pressure Tc * 100 / 100"
    using s by (intro divide_right_mono mult_left_mono) simp_all
  then have Vle: "V \<le> saturation_vapor_pressure Tc" by (simp add: V_def calc_sWB_E2_def)
  have q: "0 < 1.06 / P" using assms(3) by simp
  have "(0.0005::real) < \<bar>1\<bar>" by simp
  from calc_wb_exit[OF run this]
  consider (conv) "\<bar>V - Eguess_at Tw Tc P\<bar> < 0.0005"
    | (edge) "\<exists>n. \<bar>V - Eguess_at (calc_wb_guess Tc P V (0, 1, 10) n) Tc P\<bar> = 0.0005
             \<and> Tw = calc_wb_guess Tc P V (0, 1, 10) (Suc n)"
    by blast
  then show ?thesis
  proof cases
    case edge
    then show ?thesis unfolding V_def by blast
  next
    case conv
    have up: "Tw < Tc + 1.06 / P"
    proof (cases "Tc < Tw")
      case False
      with q show ?thesis by linarith
    next
      case True
      have m: "saturation_vapor_pressure Tc < saturation_vapor_pressure Tw"
        by (rule saturation_vapor_pressure_mono[OF assms(2) True])
      from conv have "- (V - Eguess_at Tw Tc P) < 0.0005"
        by (rule abs_less_iff[THEN iffD1, THEN conjunct2])
      then have "Eguess_at Tw Tc P - V < 0.0005" by simp
      from this Eguess_at_svp[of Tw Tc P] Vle m
      have "P * (Tw - Tc) * 0.00066 * (1.0 + 0.00115 * Tw) < 0.0005"
        by (rule above_split)
      moreover have "- 243.5 < Tw" using assms(2) True by simp
      ultimately have "Tw - Tc < 1.06 / P"
        by (intro psychrometric_term_bound[OF assms(2) True assms(3)])
      then show ?thesis by simp
    qed
    have low: "Tc - 1.06 / P < Tw" if sat: "RH = 100" and above: "- 243.5 < Tw"
    proof (cases "Tw < Tc")
      case False
      with q show ?thesis by linarith
    next
      case True
      have V100: "V = saturation_vapor_pressure Tc"
        using sat by (simp add: V_def calc_sWB_E2_def)
      have m: "saturation_vapor_pressure Tw < saturation_vapor_pressure Tc"
        by (rule saturation_vapor_pressure_mono[OF above True])
      have g: "- (P * (Tw - Tc) * k * c) = P * (Tc - Tw) * k * c" for k c :: real
        by (simp add: algebra_simps)
      from conv have "V - Eguess_at Tw Tc P < 0.0005"
        by (rule abs_less_iff[THEN iffD1, THEN conjunct1])
      from this Eguess_at_svp[of Tw Tc P] V100 m
      have "- (P * (Tw - Tc) * 0.00066 * (1.0 + 0.00115 * Tw)) < 0.0005"
        by (rule below_split)
      then have "P * (Tc - Tw) * 0.00066 * (1.0 + 0.00115 * Tw) < 0.0005"
        by (simp only: g)
      then have "Tc - Tw < 1.06 / P"
        by (intro psychrometric_term_bound[OF above True assms(3) above])
      then show ?thesis by simp
    qed
    from conv up low show ?thesis unfolding V_def by blast
  qed
qed

lemma calc_sWB_positive_RH:
  assumes "0 < RH" "Td Tc RH = Inr (es, V, d)"
  shows "calc_sWB Tc RH P = calc_wb 1 0 Tc P V 1 10"
  using assms by (simp add: calc_sWB_def)

lemma calc_wb_next_same_sign_up:
  assumes "\<not> E2 - Eguess_at Tw Tc P < 0"
  shows "calc_wb_next Tc P E2 (Tw, 1, i) = (Tw + i, 1, i)"
  using assms by (simp add: calc_wb_next_def)

lemma Eguess_at_dry_bulb: "Eguess_at Tc Tc P = saturation_vapor_pressure Tc"
  by (simp add: Eguess_at_svp)

text \<open>
  A run of three guesses: at \<open>Tc = 20\<close>, \<open>RH = 100\<close> and \<open>P = 1000\<close> the solver steps
  from 0 to 10 to 20 and returns 20, where the residual is 0.
\<close>

lemma calc_sWB_saturated_at_20: "calc_sWB 20 100 1000 = Some (Inr 20)"
proof -
  define V where "V = saturation_vapor_pressure 20 * 100 / 100.0"
  have V: "V = saturation_vapor_pressure 20" by (simp add: V_def)
  have "- 243.5 < (20::real)" "(0::real) < 100" "(100::real) \<le> 100" by simp_all
  from Td_returns[OF this] obtain d where
    t: "Td 20 100 = Inr (saturation_vapor_pressure 20, V, Fin d)"
    unfolding V_def by blast
  have s10: "0 < saturation_vapor_pressure 10" by (rule saturation_vapor_pressure_pos)
  have m: "saturation_vapor_pressure 10 < saturation_vapor_pressure 20"
    by (rule saturation_vapor_pressure_mono) simp_all
  have g0: "Eguess_at 0 20 1000 = - 7.088"
    by (simp add: Eguess_at_def)
  have g10: "Eguess_at 10 20 1000 = saturation_vapor_pressure 10 - 6.6759"
    by (simp add: Eguess_at_svp)
  have g20: "Eguess_at 20 20 1000 = V"
    unfolding V by (rule Eguess_at_dry_bulb)
  have r0: "7 < V - Eguess_at 0 20 1000" unfolding g0 V using s10 m by simp
  have r10: "6 < V - Eguess_at 10 20 1000" unfolding g10 V using m by simp
  have n0: "calc_wb_next 20 1000 V (0, 1, 10) = (10, 1, 10)"
    using calc_wb_next_same_sign_up[of V 0 20 1000 10] r0 by simp
  have n1: "calc_wb_next 20 1000 V (10, 1, 10) = (20, 1, 10)"
    using calc_wb_next_same_sign_up[of V 10 20 1000 10] r10 by simp
  have G0: "calc_wb_guess 20 1000 V (0, 1, 10) 0 = 0"
    by (rule calc_wb_guess_0)
  have G1: "calc_wb_guess 20 1000 V (0, 1, 10) (Suc 0) = 10"
    by (simp only: calc_wb_guess_Suc n0 calc_wb_guess_0)
  have G2: "calc_wb_guess 20 1000 V (0, 1, 10) (Suc (Suc 0)) = 20"
    by (simp only: calc_wb_guess_Suc n0 n1 calc_wb_guess_0)
  have "calc_wb 1 0 20 1000 V 1 10 = Some (Inr (calc_wb_guess 20 1000 V (0, 1, 10) (Suc (Suc 0))))"
  proof (rule calc_wb_returns)
    show "(0.0005::real) < \<bar>1\<bar>" by simp
    show "calc_wb_guess 20 1000 V (0, 1, 10) m + 243.5 \<noteq> 0 \<and>
         0.0005 < \<bar>V - Eguess_at (calc_wb_guess 20 1000 V (0, 1, 10) m) 20 1000\<bar>"
      if "m < Suc (Suc 0)" for m
    proof -
      from that consider "m = 0" | "m = Suc 0" by (cases m) auto
      then show ?thesis
      proof cases
        case 1
        show ?thesis unfolding 1 G0 using r0 by simp
      next
        case 2
        show ?thesis unfolding 2 G1 using r10 by simp
      qed
    qed
    show "calc_wb_guess 20 1000 V (0, 1, 10) (Suc (Suc 0)) + 243.5 \<noteq> 0"
      unfolding G2 by simp
    show "\<bar>V - Eguess_at (calc_wb_guess 20 1000 V (0, 1, 10) (Suc (Suc 0))) 20 1000\<bar> < 0.0005"
      unfolding G2 g20 by simp
  qed
  then have "calc_wb 1 0 20 1000 V 1 10 = Some (Inr 20)" unfolding G2 .
  moreover have "(0::real) < 100" by simp
  note calc_sWB_positive_RH[OF this t, of 1000]
  ultimately show ?thesis by (rule ssubst[rotated])
qed

theorem calc_sWB_within_tolerance_witness:
  "calc_sWB 20 100 1000 = Some (Inr 20) \<and> - 243.5 < (20::real) \<and> (0::real) < 1000 \<and> (100::real) \<le> 100 \<and>
   ((\<bar>calc_sWB_E2 20 100 - Eguess_at 20 20 1000\<bar> < 0.0005 \<and>
     (20::real) < 20 + 1.06 / 1000 \<and> (20::real) - 1.06 / 1000 < 20) \<or>
    (\<exists>n. \<bar>calc_sWB_E2 20 100
            - Eguess_at (calc_wb_guess 20 1000 (calc_sWB_E2 20 100) (0, 1, 10) n) 20 1000\<bar> = 0.0005 \<and>
         20 = calc_wb_guess 20 1000 (calc_sWB_E2 20 100) (0, 1, 10) (Suc n)))"
proof -
  have a: "- 243.5 < (20::real)" and b: "(0::real) < 1000" and c: "(100::real) \<le> 100" by simp_all
  from calc_sWB_within_tolerance[OF calc_sWB_saturated_at_20 a b c]
  have "(\<bar>calc_sWB_E2 20 100 - Eguess_at 20 20 1000\<bar> < 0.0005 \<and>
     (20::real) < 20 + 1.06 / 1000 \<and> (20::real) - 1.06 / 1000 < 20) \<or>
    (\<exists>n. \<bar>calc_sWB_E2 20 100
            - Eguess_at (calc_wb_guess 20 1000 (calc_sWB_E2 20 100) (0, 1, 10) n) 20 1000\<bar> = 0.0005 \<and>
         20 = calc_wb_guess 20 1000 (calc_sWB_E2 20 100) (0, 1, 10) (Suc n))"
    by simp
  with calc_sWB_saturated_at_20 a b c show ?thesis by blast
qed

text \<open>
  With \<open>Tc = -0.0001\<close>, \<open>RH = 99.999\<close> and \<open>P = 1000\<close> the first guess, 0, passes the
  convergence test, and 0 is above the dry-bulb temperature.
\<close>

lemma near_zero_vapor_pressure:
  "6.1118 < saturation_vapor_pressure (- 0.0001) * 99.999 / 100.0"
  "saturation_vapor_pressure (- 0.0001) * 99.999 / 100.0 < 6.112"
proof -
  define a :: real where "a = 17.67 * (- 0.0001) / (- 0.0001 + 243.5)"
  have a1: "- 0.00001 \<le> a" and a2: "a \<le> 0" by (simp_all add: a_def)
  have "1 + a \<le> exp a" by (rule exp_ge_add_one_self)
  with a1 have lo: "0.99999 \<le> exp a" by (simp; linarith)
  have hi: "exp a \<le> 1" using a2 by simp
  have e: "saturation_vapor_pressure (- 0.0001) = 6.112 * exp a"
    by (simp only: saturation_vapor_pressure_def a_def)
  have "6.1118 < 6.112 * 0.99999 * 99.999 / (100.0::real)" by simp
  also have "\<dots> \<le> 6.112 * exp a * 99.999 / 100.0"
    using lo by (intro divide_right_mono mult_right_mono mult_left_mono) simp_all
  finally show "6.1118 < saturation_vapor_pressure (- 0.0001) * 99.999 / 100.0"
    unfolding e .
  have "6.112 * exp a * 99.999 / 100.0 \<le> 6.112 * 1 * 99.999 / 100.0"
    using hi by (intro divide_right_mono mult_right_mono mult_left_mono) simp_all
  also have "\<dots> < 6.112" by simp
  finally show "saturation_vapor_pressure (- 0.0001) * 99.999 / 100.0 < 6.112"
    unfolding e .
qed

theorem calc_sWB_above_dry_bulb_counterexample:
  "calc_sWB (- 0.0001) 99.999 1000 = Some (Inr 0) \<and> (99.999::real) < 100 \<and> (0::real) < 1000
   \<and> \<not> (0::real) \<le> - 0.0001"
proof -
  define V where "V = saturation_vapor_pressure (- 0.0001) * 99.999 / 100.0"
  have v: "6.1118 < V" "V < 6.112"
    unfolding V_def by (rule near_zero_vapor_pressure)+
  have "- 243.5 < (- 0.0001::real)" "(0::real) < 99.999" "(99.999::real) \<le> 100" by simp_all
  from Td_returns[OF this] obtain d where
    t: "Td (- 0.0001) 99.999 = Inr (saturation_vapor_pressure (- 0.0001), V, Fin d)"
    unfolding V_def by blast
  have g: "Eguess_at 0 (- 0.0001) 1000 = 6.112066"
    by (simp add: Eguess_at_def)
  have "\<bar>V - Eguess_at 0 (- 0.0001) 1000\<bar> < 0.0005"
    unfolding g using v by simp
  then have "calc_wb 1 0 (- 0.0001) 1000 V 1 10 = Some (Inr 0)"
    by (subst calc_wb_unfold) simp
  moreover have "(0::real) < 99.999" by simp
  note calc_sWB_positive_RH[OF this t, of 1000]
  ultimately have "calc_sWB (- 0.0001) 99.999 1000 = Some (Inr 0)"
    by (rule ssubst[rotated])
  then show ?thesis by simp
qed

end
